theory Spec2Isabelle
  imports Main
begin

section \<open>Workspace and text search\<close>

text \<open>
  The scripts only ever probe regular files (\<open>[[ -f p ]]\<close>) and read or write their
  contents, so a workspace is a partial map from paths to file contents. Contents are
  byte strings. Directories are not files of the map; \<open>mkdir -p\<close> therefore leaves
  the map unchanged.
\<close>

type_synonym path = string
type_synonym fs = "path \<rightharpoonup> string"

text \<open>\<open>[[ -f p ]]\<close>\<close>

definition is_file :: "fs \<Rightarrow> path \<Rightarrow> bool" where
  "is_file w p = (w p \<noteq> None)"

text \<open>
  \<open>grep\<close> reads its input line by line: the text is cut at every newline (byte 10), a
  last line without a newline still counts, and an empty file has no line at all.
\<close>

fun split_lines :: "string \<Rightarrow> string \<Rightarrow> string list" where
  "split_lines cur [] = (if cur = [] then [] else [cur])"
| "split_lines cur (c # cs) =
     (if c = CHR 0x0A then cur # split_lines [] cs else split_lines (cur @ [c]) cs)"

definition lines_of :: "string \<Rightarrow> string list" where
  "lines_of txt = split_lines [] txt"

text \<open>\<open>starts_with p s\<close>: the pattern \<open>p\<close> matches at the very start of \<open>s\<close>.\<close>

fun starts_with :: "string \<Rightarrow> string \<Rightarrow> bool" where
  "starts_with [] s = True"
| "starts_with (p # ps) [] = False"
| "starts_with (p # ps) (c # cs) = (p = c \<and> starts_with ps cs)"

text \<open>\<open>contains p s\<close>: the fixed pattern \<open>p\<close> occurs somewhere in the line \<open>s\<close>.\<close>

fun contains :: "string \<Rightarrow> string \<Rightarrow> bool" where
  "contains p [] = (p = [])"
| "contains p (c # cs) = (starts_with p (c # cs) \<or> contains p cs)"

text \<open>
  The locale is taken to be C: a character is a byte. In a regular expression of
  \<open>grep\<close> the dot matches every byte but two, the newline and the NUL byte, so a match
  of \<open>.*\<close> never runs across a NUL.
\<close>

definition dot_matches :: "char \<Rightarrow> bool" where
  "dot_matches c = (c \<noteq> CHR 0x0A \<and> c \<noteq> CHR 0x00)"

text \<open>
  \<open>dot_star_then q s\<close>: the expression \<open>.*q\<close> matches at the very start of \<open>s\<close>:
  either \<open>q\<close> starts here, or the dot takes one byte and the rest matches.
\<close>

fun dot_star_then :: "string \<Rightarrow> string \<Rightarrow> bool" where
  "dot_star_then q [] = (q = [])"
| "dot_star_then q (c # cs) =
     (starts_with q (c # cs) \<or> (dot_matches c \<and> dot_star_then q cs))"

text \<open>
  \<open>contains_then p q s\<close>: the regular expression \<open>p.*q\<close> (two fixed words with a run
  of bytes the dot matches between them) matches somewhere in the line \<open>s\<close>.
\<close>

fun contains_then :: "string \<Rightarrow> string \<Rightarrow> string \<Rightarrow> bool" where
  "contains_then p q [] = (p = [] \<and> q = [])"
| "contains_then p q (c # cs) =
     ((starts_with p (c # cs) \<and> dot_star_then q (drop (length p) (c # cs)))
      \<or> contains_then p q cs)"

text \<open>
  Case folding of \<open>grep -i\<close> in the C locale: \<open>A\<close>..\<open>Z\<close> become \<open>a\<close>..\<open>z\<close>, every
  other byte stays.
\<close>

definition to_lower :: "char \<Rightarrow> char" where
  "to_lower c =
     (let n = (of_char c :: nat) in if 65 \<le> n \<and> n \<le> 90 then char_of (n + 32) else c)"

definition lower :: "string \<Rightarrow> string" where
  "lower s = map to_lower s"

text \<open>\<open>grep -q PATTERN file\<close> for a fixed-string pattern: some line contains it.\<close>

definition grep_q :: "string \<Rightarrow> string \<Rightarrow> bool" where
  "grep_q pat txt = list_ex (contains pat) (lines_of txt)"

text \<open>
  \<open>grep -qi "severity.*critical\|severity.*high" file\<close>: some line, with case ignored,
  has the word \<open>severity\<close> and later on the same line \<open>critical\<close> or \<open>high\<close>, with
  no NUL byte between the two words.
\<close>

definition severity_line :: "string \<Rightarrow> bool" where
  "severity_line l =
     (contains_then ''severity'' ''critical'' (lower l)
      \<or> contains_then ''severity'' ''high'' (lower l))"

definition grep_qi_severity :: "string \<Rightarrow> bool" where
  "grep_qi_severity txt = list_ex severity_line (lines_of txt)"

section \<open>The phase gate: orchestrator/hooks/lint\_phase.sh.backup\<close>

text \<open>
  The script runs under \<open>set -euo pipefail\<close> in a bash that expands an empty
  array to no words (4.4 or later). The file tests and the validator commands are the
  only contact with the outside: the validators are external programs, known to the
  gate by their exit status alone, and they are taken not to create or remove the files
  the gate probes.
\<close>

definition spec_findings :: path where
  "spec_findings = ''reports/security/spec-findings.md''"

definition plan_scan :: path where
  "plan_scan = ''reports/security/plan-scan.md''"

definition tasks_unit_help :: path where
  "tasks_unit_help = ''reports/tests/tasks-unit-help.md''"

definition implement_scan :: path where
  "implement_scan = ''reports/security/implement-scan.md''"

definition analyze_deltas :: path where
  "analyze_deltas = ''reports/security/analyze-deltas.md''"

definition analyze_compliance :: path where
  "analyze_compliance = ''reports/compliance/analyze-compliance.md''"

definition plan_md :: path where
  "plan_md = ''plans/plan.md''"

definition decisions_md :: path where
  "decisions_md = ''DECISIONS.md''"

text \<open>
  What the gate prints, one constructor for each \<open>echo\<close> of the script (the
  pictographs of the original lines are left out):
  \<^item> \<open>Running ph\<close>: "Running lint_phase hook for: ph";
  \<^item> \<open>Validating ph\<close>: "Validating plugin artifacts for phase: ph";
  \<^item> \<open>MissingHeader\<close>: "Missing required plugin artifacts:";
  \<^item> \<open>MissingItem p\<close>: "     - p";
  \<^item> \<open>FindingsDetected r\<close>: "CRITICAL/HIGH findings detected in r";
  \<^item> \<open>MitigationFound\<close>: "Mitigation plan found in plans/plan.md";
  \<^item> \<open>WaiverFound\<close>: "Security waiver found in DECISIONS.md";
  \<^item> \<open>NoMitigation\<close>: "No mitigation plan or waiver found";
  \<^item> \<open>MitigationRequired\<close>:
    "Required: Mitigation in plans/plan.md OR waiver in DECISIONS.md";
  \<^item> \<open>ArtifactsValidated\<close>: "Plugin artifacts validated";
  \<^item> \<open>NodeDetected\<close>, \<open>RustDetected\<close>: "Node/TypeScript workspace detected",
    "Rust workspace detected";
  \<^item> \<open>Step s\<close>: "Running s...";
  \<^item> \<open>SkippingNode ph\<close>, \<open>SkippingRust ph\<close>: "Phase 'ph' - skipping Node checks",
    "Phase 'ph' - skipping Rust checks";
  \<^item> \<open>Failed n\<close>: "Lint phase failed with code: n";
  \<^item> \<open>Passed\<close>: "Lint phase passed".
\<close>

datatype line =
    Running string
  | Validating string
  | MissingHeader
  | MissingItem path
  | FindingsDetected path
  | MitigationFound
  | WaiverFound
  | NoMitigation
  | MitigationRequired
  | ArtifactsValidated
  | NodeDetected
  | RustDetected
  | Step string
  | SkippingNode string
  | SkippingRust string
  | Failed nat
  | Passed

subsection \<open>check\_security\_findings\<close>

text \<open>The \<open>case\<close> that fills \<open>report_files\<close>; any other phase leaves it empty.\<close>

definition report_files :: "string \<Rightarrow> path list" where
  "report_files phase =
     (if phase = ''spec'' then [spec_findings]
      else if phase = ''plan'' then [plan_scan]
      else if phase = ''implement'' then [implement_scan]
      else if phase = ''analyze'' then [analyze_deltas]
      else [])"

text \<open>\<open>[[ -f plans/plan.md ]] && grep -q "Security Mitigations" plans/plan.md\<close>\<close>

definition mitigation_documented :: "fs \<Rightarrow> bool" where
  "mitigation_documented w =
     (case w plan_md of None \<Rightarrow> False | Some txt \<Rightarrow> grep_q ''Security Mitigations'' txt)"

text \<open>\<open>[[ -f DECISIONS.md ]] && grep -q "Security Finding Waiver" DECISIONS.md\<close>\<close>

definition waiver_documented :: "fs \<Rightarrow> bool" where
  "waiver_documented w =
     (case w decisions_md of None \<Rightarrow> False
      | Some txt \<Rightarrow> grep_q ''Security Finding Waiver'' txt)"

text \<open>
  The \<open>for report in ...\<close> loop: the pair is the return status and the lines printed.
  \<open>return 2\<close> leaves the loop at the first report with an undocumented finding.
\<close>

fun scan_reports :: "fs \<Rightarrow> path list \<Rightarrow> nat \<times> line list" where
  "scan_reports w [] = (0, [])"
| "scan_reports w (report # rest) =
     (case w report of
        None \<Rightarrow> scan_reports w rest
      | Some txt \<Rightarrow>
          if grep_qi_severity txt then
            if mitigation_documented w then
              (fst (scan_reports w rest),
               FindingsDetected report # MitigationFound # snd (scan_reports w rest))
            else if waiver_documented w then
              (fst (scan_reports w rest),
               FindingsDetected report # WaiverFound # snd (scan_reports w rest))
            else (2, [FindingsDetected report, NoMitigation, MitigationRequired])
          else scan_reports w rest)"

definition check_security_findings :: "string \<Rightarrow> fs \<Rightarrow> nat \<times> line list" where
  "check_security_findings phase w = scan_reports w (report_files phase)"

subsection \<open>validate\_plugin\_artifacts\<close>

text \<open>\<open>if [[ ! -f p ]]; then missing_artifacts+=(p); fi\<close>\<close>

definition missing_if_absent :: "fs \<Rightarrow> path \<Rightarrow> path list" where
  "missing_if_absent w p = (if is_file w p then [] else [p])"

text \<open>The \<open>case\<close> that fills \<open>missing_artifacts\<close>, in the order of the script.\<close>

definition missing_artifacts :: "string \<Rightarrow> fs \<Rightarrow> path list" where
  "missing_artifacts phase w =
     (if phase = ''spec'' then missing_if_absent w spec_findings
      else if phase = ''plan'' then missing_if_absent w plan_scan
      else if phase = ''tasks'' then
        (if is_file w ''requirements.txt'' \<or> is_file w ''pyproject.toml''
         then missing_if_absent w tasks_unit_help else [])
      else if phase = ''implement'' then missing_if_absent w implement_scan
      else if phase = ''analyze'' then
        missing_if_absent w analyze_deltas @ missing_if_absent w analyze_compliance
      else [])"

text \<open>
  The function is called on the left of \<open>||\<close>, where \<open>set -e\<close> is off: a non-zero
  status of \<open>check_security_findings\<close> is stored and returned, not fatal.
\<close>

definition validate_plugin_artifacts :: "string \<Rightarrow> fs \<Rightarrow> nat \<times> line list" where
  "validate_plugin_artifacts phase w =
     (if missing_artifacts phase w \<noteq> [] then
        (1, Validating phase # MissingHeader # map MissingItem (missing_artifacts phase w))
      else
        (let r = check_security_findings phase w in
         (fst r, Validating phase # snd r @ (if fst r = 0 then [ArtifactsValidated] else []))))"

subsection \<open>The validator chains\<close>

datatype cmd =
    PnpmLint | NpmLint
  | PnpmPrettier | NpxPrettier
  | PnpmTypecheck | NpmTypecheck
  | PnpmTest | NpmTest
  | CargoFmt | CargoClippy | CargoTest

text \<open>The environment of one run: the exit status each validator command would give.\<close>

type_synonym tools = "cmd \<Rightarrow> nat"

text \<open>
  The script's state: the global \<open>EXIT_CODE\<close>, what was printed, and the validator
  commands started so far, in order.
\<close>

record run_state =
  EXIT_CODE :: nat
  out :: "line list"
  ran :: "cmd list"

definition echo :: "line \<Rightarrow> run_state \<Rightarrow> run_state" where
  "echo l s = s\<lparr>out := out s @ [l]\<rparr>"

text \<open>\<open>a || EXIT_CODE=$?\<close>\<close>

definition or_record :: "tools \<Rightarrow> cmd \<Rightarrow> run_state \<Rightarrow> run_state" where
  "or_record t a s =
     (let s1 = s\<lparr>ran := ran s @ [a]\<rparr>
      in if t a = 0 then s1 else s1\<lparr>EXIT_CODE := t a\<rparr>)"

text \<open>\<open>a || b || EXIT_CODE=$?\<close>: \<open>b\<close> runs only when \<open>a\<close> fails.\<close>

definition or_else_record :: "tools \<Rightarrow> cmd \<Rightarrow> cmd \<Rightarrow> run_state \<Rightarrow> run_state" where
  "or_else_record t a b s =
     (let s1 = s\<lparr>ran := ran s @ [a]\<rparr>
      in if t a = 0 then s1 else or_record t b s1)"

definition node_chain :: "tools \<Rightarrow> run_state \<Rightarrow> run_state" where
  "node_chain t s =
     (let s = echo (Step ''ESLint'') s;
          s = or_else_record t PnpmLint NpmLint s;
          s = echo (Step ''Prettier'') s;
          s = or_else_record t PnpmPrettier NpxPrettier s;
          s = echo (Step ''TypeScript'') s;
          s = or_else_record t PnpmTypecheck NpmTypecheck s;
          s = echo (Step ''tests'') s
      in or_else_record t PnpmTest NpmTest s)"

definition rust_chain :: "tools \<Rightarrow> run_state \<Rightarrow> run_state" where
  "rust_chain t s =
     (let s = echo (Step ''cargo fmt check'') s;
          s = or_record t CargoFmt s;
          s = echo (Step ''cargo clippy'') s;
          s = or_record t CargoClippy s;
          s = echo (Step ''cargo test'') s
      in or_record t CargoTest s)"

definition node_checks :: "string \<Rightarrow> fs \<Rightarrow> tools \<Rightarrow> run_state \<Rightarrow> run_state" where
  "node_checks PHASE w t s =
     (if is_file w ''package.json'' then
        (if PHASE = ''implement'' then node_chain t (echo NodeDetected s)
         else echo (SkippingNode PHASE) (echo NodeDetected s))
      else s)"

definition rust_checks :: "string \<Rightarrow> fs \<Rightarrow> tools \<Rightarrow> run_state \<Rightarrow> run_state" where
  "rust_checks PHASE w t s =
     (if is_file w ''Cargo.toml'' then
        (if PHASE = ''implement'' then rust_chain t (echo RustDetected s)
         else echo (SkippingRust PHASE) (echo RustDetected s))
      else s)"

subsection \<open>The script\<close>

text \<open>\<open>PHASE="${1:-implement}"\<close>: a missing or empty first argument means implement.\<close>

definition phase_arg :: "string option \<Rightarrow> string" where
  "phase_arg arg = (case arg of None \<Rightarrow> ''implement'' | Some a \<Rightarrow> if a = [] then ''implement'' else a)"

text \<open>
  \<open>[[ "$PHASE" =~ ^(spec|plan|tasks|implement|analyze)$ ]]\<close>
\<close>

definition gated_phase :: "string \<Rightarrow> bool" where
  "gated_phase PHASE = (PHASE \<in> set [''spec'', ''plan'', ''tasks'', ''implement'', ''analyze''])"

text \<open>\<open>validate_plugin_artifacts "$PHASE" || EXIT_CODE=$?\<close>\<close>

definition artifact_gate :: "string \<Rightarrow> fs \<Rightarrow> run_state \<Rightarrow> run_state" where
  "artifact_gate PHASE w s =
     (if gated_phase PHASE then
        (let r = validate_plugin_artifacts PHASE w;
             s1 = s\<lparr>out := out s @ snd r\<rparr>
         in if fst r = 0 then s1 else s1\<lparr>EXIT_CODE := fst r\<rparr>)
      else s)"

text \<open>The last lines: the process exits with \<open>EXIT_CODE\<close>.\<close>

definition finish :: "run_state \<Rightarrow> run_state" where
  "finish s = (if EXIT_CODE s \<noteq> 0 then echo (Failed (EXIT_CODE s)) s else echo Passed s)"

text \<open>
  One run of the gate. The exit status of the process is the \<open>EXIT_CODE\<close> of the
  result.
\<close>

definition lint_phase :: "string option \<Rightarrow> fs \<Rightarrow> tools \<Rightarrow> run_state" where
  "lint_phase arg w t =
     (let PHASE = phase_arg arg;
          s0 = \<lparr>EXIT_CODE = 0, out = [Running PHASE], ran = []\<rparr>
      in finish (rust_checks PHASE w t (node_checks PHASE w t (artifact_gate PHASE w s0))))"

text \<open>
  The other version of the hook in the repository, without the plugin artifact block:
  the same two chains, no artifact gate.
\<close>

definition lint_phase_plain :: "string option \<Rightarrow> fs \<Rightarrow> tools \<Rightarrow> run_state" where
  "lint_phase_plain arg w t =
     (let PHASE = phase_arg arg;
          s0 = \<lparr>EXIT_CODE = 0, out = [Running PHASE], ran = []\<rparr>
      in finish (rust_checks PHASE w t (node_checks PHASE w t s0)))"

section \<open>The plugin runtime: orchestrator/plugins.runtime.sh and scripts/\<close>

text \<open>
  A script ends with a status, has written lines to standard error, and leaves a
  workspace behind. Only the lines the scripts of the repository write themselves are
  kept; what the external audit tools print goes to the terminal and is not modelled.
\<close>

record proc =
  status :: nat
  err :: "string list"
  files :: fs

text \<open>
  \<open>a; b\<close> under \<open>set -e\<close>: a non-zero status of \<open>a\<close> ends the script there.
\<close>

definition and_then :: "proc \<Rightarrow> (fs \<Rightarrow> proc) \<Rightarrow> proc" where
  "and_then r f =
     (if status r \<noteq> 0 then r
      else (let r' = f (files r) in r'\<lparr>err := err r @ err r'\<rparr>))"

text \<open>What the scripts ask of the machine: the mode variable and which tools are installed.\<close>

record env =
  ORCHESTRATOR_PLUGIN_MODE :: "string option"
  has_pnpm :: bool
  has_npm :: bool
  has_cargo :: bool
  has_cargo_audit :: bool
  has_pip_audit :: bool

text \<open>
  Three producer scripts are called by the runtime and are not among the sources:
  \<open>scripts/generate-threat-model.sh\<close>, \<open>scripts/merge-audits.sh\<close> and
  \<open>scripts/generate-compliance-report.sh\<close>. Each is a parameter: a function from the
  workspace to its exit status and the workspace it leaves.
\<close>

record producers =
  generate_threat_model :: "fs \<Rightarrow> nat \<times> fs"
  merge_audits :: "fs \<Rightarrow> nat \<times> fs"
  generate_compliance_report :: "fs \<Rightarrow> nat \<times> fs"

definition external :: "(fs \<Rightarrow> nat \<times> fs) \<Rightarrow> fs \<Rightarrow> proc" where
  "external f w = \<lparr>status = fst (f w), err = [], files = snd (f w)\<rparr>"

text \<open>\<open>echo text >> p\<close> (the text already ends with its newline).\<close>

definition append_file :: "fs \<Rightarrow> path \<Rightarrow> string \<Rightarrow> fs" where
  "append_file w p txt = w(p \<mapsto> (case w p of None \<Rightarrow> [] | Some old \<Rightarrow> old) @ txt)"

text \<open>The dash of the report titles is U+2013, three bytes in UTF-8.\<close>

definition en_dash :: string where
  "en_dash = [CHR 0xE2, CHR 0x80, CHR 0x93]"

text \<open>
  scripts/audit-js.sh. \<open>pnpm audit --json || true >> "$outfile"\<close> redirects the
  output of \<open>true\<close> only, so the audit itself adds nothing to the file.
\<close>

definition audit_js :: "env \<Rightarrow> fs \<Rightarrow> proc" where
  "audit_js e w =
     (let w = w(plan_scan \<mapsto> []);
          w = append_file w plan_scan (''# Plan Scan '' @ en_dash @ '' JS/TS\<newline>'');
          w = (if has_pnpm e \<or> has_npm e then
                 (if has_pnpm e \<and> is_file w ''pnpm-workspace.yaml''
                  then append_file w plan_scan ''(workspace mode)\<newline>'' else w)
               else append_file w plan_scan
                      ''- Package manager not found; skipping JS audit\<newline>'')
      in \<lparr>status = 0, err = [''[audit-js] Wrote reports/security/plan-scan.md''],
          files = w\<rparr>)"

text \<open>scripts/audit-rust.sh\<close>

definition audit_rust :: "env \<Rightarrow> fs \<Rightarrow> proc" where
  "audit_rust e w =
     (let w = append_file w plan_scan
                (''\<newline># Plan Scan '' @ en_dash @ '' Rust\<newline>\<newline>'')
      in if \<not> has_cargo e then
           \<lparr>status = 0, err = [],
            files = append_file w plan_scan
                      ''- cargo not found; skipping Rust audit\<newline>''\<rparr>
         else
           \<lparr>status = 0, err = [''[audit-rust] Appended to reports/security/plan-scan.md''],
            files = (if \<not> has_cargo_audit e
                     then append_file w plan_scan
                            ''(tip) Install cargo-audit: cargo install cargo-audit\<newline>''
                     else w)\<rparr>)"

text \<open>scripts/audit-python.sh\<close>

definition audit_python :: "env \<Rightarrow> fs \<Rightarrow> proc" where
  "audit_python e w =
     (let w = append_file w plan_scan
                (''\<newline># Plan Scan '' @ en_dash @ '' Python\<newline>\<newline>'')
      in if \<not> is_file w ''pyproject.toml'' \<and> \<not> is_file w ''requirements.txt'' then
           \<lparr>status = 0, err = [],
            files = append_file w plan_scan
                      ''- No Python project detected; skipping\<newline>''\<rparr>
         else
           \<lparr>status = 0, err = [''[audit-python] Appended to reports/security/plan-scan.md''],
            files = (if \<not> has_pip_audit e
                     then append_file w plan_scan
                            ''(tip) Install pip-audit: pip install pip-audit\<newline>''
                     else w)\<rparr>)"

text \<open>scripts/python-unit-help.sh: the here-document replaces the file.\<close>

definition unit_help_text :: string where
  "unit_help_text =
     ''# Python Unit Testing Help\<newline>\<newline>'' @
     ''- Suggested structure: `tests/` with `test_*.py`\<newline>'' @
     ''- Coverage goal: >= 80%\<newline>'' @
     ''- Commands:\<newline>'' @
     ''  - `pytest -q`\<newline>'' @
     ''  - `pytest --maxfail=1 --disable-warnings -q`\<newline>'' @
     ''- Add CI target to enforce coverage threshold.\<newline>\<newline>''"

definition python_unit_help :: "fs \<Rightarrow> proc" where
  "python_unit_help w =
     \<lparr>status = 0, err = [''[python-unit-help] Wrote reports/tests/tasks-unit-help.md''],
      files = w(tasks_unit_help \<mapsto> unit_help_text)\<rparr>"

text \<open>
  \<open>mv -f src dst\<close>: the file leaves \<open>src\<close>; without a source the command fails and
  changes nothing (its own error text is not kept).
\<close>

definition mv_f :: "path \<Rightarrow> path \<Rightarrow> fs \<Rightarrow> proc" where
  "mv_f src dst w =
     (if is_file w src then \<lparr>status = 0, err = [], files = w(dst := w src, src := None)\<rparr>
      else \<lparr>status = 1, err = [], files = w\<rparr>)"

subsection \<open>Claude mode: placeholders\<close>

text \<open>\<open>: > p\<close> followed by the two \<open>printf ... >> p\<close>.\<close>

definition claude_stub :: "string \<Rightarrow> path \<Rightarrow> fs \<Rightarrow> fs" where
  "claude_stub title p w =
     w(p \<mapsto> ''# '' @ title @ '' (from Claude plugins)\<newline>\<newline>'' @
            ''_Claude plugins should append their outputs here._\<newline>'')"

definition run_claude_spec :: "fs \<Rightarrow> proc" where
  "run_claude_spec w =
     \<lparr>status = 0,
      err = [''[plugins.runtime] Expecting Claude to run: /plugin run security-guidance (+ backend-api-security if APIs)''],
      files = claude_stub ''Spec Findings'' spec_findings w\<rparr>"

definition run_claude_plan :: "fs \<Rightarrow> proc" where
  "run_claude_plan w =
     \<lparr>status = 0, err = [], files = claude_stub ''Plan Scan'' plan_scan w\<rparr>"

definition run_claude_tasks :: "fs \<Rightarrow> proc" where
  "run_claude_tasks w =
     \<lparr>status = 0, err = [],
      files = claude_stub ''Python Unit Testing Help'' tasks_unit_help w\<rparr>"

definition run_claude_implement :: "fs \<Rightarrow> proc" where
  "run_claude_implement w =
     \<lparr>status = 0, err = [], files = claude_stub ''Implement Scan'' implement_scan w\<rparr>"

definition run_claude_analyze :: "fs \<Rightarrow> proc" where
  "run_claude_analyze w =
     \<lparr>status = 0, err = [], files = claude_stub ''Compliance Report'' analyze_compliance w\<rparr>"

subsection \<open>CLI mode: local producers\<close>

definition run_cli_spec :: "producers \<Rightarrow> fs \<Rightarrow> proc" where
  "run_cli_spec pr w = external (generate_threat_model pr) w"

definition run_cli_plan :: "env \<Rightarrow> producers \<Rightarrow> fs \<Rightarrow> proc" where
  "run_cli_plan e pr w =
     and_then (and_then (and_then (audit_js e w) (audit_rust e)) (audit_python e))
       (external (merge_audits pr))"

definition run_cli_tasks :: "fs \<Rightarrow> proc" where
  "run_cli_tasks w =
     (if is_file w ''pyproject.toml'' \<or> is_file w ''requirements.txt'' then python_unit_help w
      else \<lparr>status = 0,
            err = [''[plugins.runtime] No Python detected; skipping tasks unit help''],
            files = w\<rparr>)"

definition run_cli_implement :: "env \<Rightarrow> producers \<Rightarrow> fs \<Rightarrow> proc" where
  "run_cli_implement e pr w = and_then (run_cli_plan e pr w) (mv_f plan_scan implement_scan)"

definition run_cli_analyze :: "producers \<Rightarrow> fs \<Rightarrow> proc" where
  "run_cli_analyze pr w = external (generate_compliance_report pr) w"

subsection \<open>The dispatch\<close>

text \<open>\<open>MODE="${ORCHESTRATOR_PLUGIN_MODE:-cli}"\<close>\<close>

definition mode_of :: "env \<Rightarrow> string" where
  "mode_of e =
     (case ORCHESTRATOR_PLUGIN_MODE e of None \<Rightarrow> ''cli''
      | Some m \<Rightarrow> if m = [] then ''cli'' else m)"

text \<open>\<open>*) echo "Unknown phase: $PHASE" >&2; exit 1\<close>\<close>

definition unknown_phase :: "string \<Rightarrow> fs \<Rightarrow> proc" where
  "unknown_phase PHASE w = \<lparr>status = 1, err = [''Unknown phase: '' @ PHASE], files = w\<rparr>"

text \<open>
  \<open>PHASE="${1:-}"\<close>; the branch \<open>cli|*\<close> takes every mode that is not \<open>claude\<close>.
\<close>

definition plugins_runtime :: "env \<Rightarrow> producers \<Rightarrow> string option \<Rightarrow> fs \<Rightarrow> proc" where
  "plugins_runtime e pr arg w =
     (let PHASE = (case arg of None \<Rightarrow> [] | Some a \<Rightarrow> a) in
      if mode_of e = ''claude'' then
        (if PHASE = ''spec'' then run_claude_spec w
         else if PHASE = ''plan'' then run_claude_plan w
         else if PHASE = ''tasks'' then run_claude_tasks w
         else if PHASE = ''implement'' then run_claude_implement w
         else if PHASE = ''analyze'' then run_claude_analyze w
         else unknown_phase PHASE w)
      else
        (if PHASE = ''spec'' then run_cli_spec pr w
         else if PHASE = ''plan'' then run_cli_plan e pr w
         else if PHASE = ''tasks'' then run_cli_tasks w
         else if PHASE = ''implement'' then run_cli_implement e pr w
         else if PHASE = ''analyze'' then run_cli_analyze pr w
         else unknown_phase PHASE w))"

section \<open>The phase check: ci/run\_phase\_checks.sh\<close>

text \<open>
  The wrapper calls the runtime, discards its status (\<open>|| true\<close>), then calls the hook
  at orchestrator/hooks/lint\_phase.sh on the workspace the runtime left. The hook is a
  parameter, to be filled with either version of the hook above. Under \<open>set -e\<close> a
  failing hook ends the wrapper with the hook's status, before the last \<open>echo\<close>.
\<close>

record ci_run =
  ci_status :: nat
  ci_err :: "string list"
  ci_out :: "string list"
  ci_hook :: "run_state option"

definition run_phase_checks ::
  "(string option \<Rightarrow> fs \<Rightarrow> tools \<Rightarrow> run_state) \<Rightarrow> env \<Rightarrow> producers \<Rightarrow>
   string option \<Rightarrow> fs \<Rightarrow> tools \<Rightarrow> ci_run" where
  "run_phase_checks hook e pr arg w t =
     (let PHASE = (case arg of None \<Rightarrow> [] | Some a \<Rightarrow> a) in
      if PHASE = [] then
        \<lparr>ci_status = 2,
         ci_err = [''Usage: ci/run_phase_checks.sh <spec|plan|tasks|implement|analyze>''],
         ci_out = [], ci_hook = None\<rparr>
      else
        (let r = plugins_runtime (e\<lparr>ORCHESTRATOR_PLUGIN_MODE := Some (mode_of e)\<rparr>) pr
                   (Some PHASE) w;
             g = hook (Some PHASE) (files r) t
         in if EXIT_CODE g \<noteq> 0 then
              \<lparr>ci_status = EXIT_CODE g, ci_err = err r, ci_out = [], ci_hook = Some g\<rparr>
            else
              \<lparr>ci_status = 0, ci_err = err r, ci_out = [''[ci] Phase '' @ PHASE @ '' OK''],
               ci_hook = Some g\<rparr>))"

section \<open>Notions used in the statements\<close>

text \<open>
  The artifacts the \<open>case\<close> of \<open>validate_plugin_artifacts\<close> tests for a phase; the
  one of the tasks phase only when a Python manifest is present.
\<close>

definition required_artifacts :: "string \<Rightarrow> fs \<Rightarrow> path list" where
  "required_artifacts phase w =
     (if phase = ''spec'' then [spec_findings]
      else if phase = ''plan'' then [plan_scan]
      else if phase = ''tasks'' then
        (if is_file w ''requirements.txt'' \<or> is_file w ''pyproject.toml''
         then [tasks_unit_help] else [])
      else if phase = ''implement'' then [implement_scan]
      else if phase = ''analyze'' then [analyze_deltas, analyze_compliance]
      else [])"

text \<open>
  The status a stage \<open>a || b\<close> of the Node chain leaves, and the commands it starts.
\<close>

definition stage_status :: "tools \<Rightarrow> cmd \<Rightarrow> cmd \<Rightarrow> nat" where
  "stage_status t a b = (if t a = 0 then 0 else t b)"

definition stage_trace :: "tools \<Rightarrow> cmd \<Rightarrow> cmd \<Rightarrow> cmd list" where
  "stage_trace t a b = (if t a = 0 then [a] else [a, b])"

definition node_statuses :: "tools \<Rightarrow> nat list" where
  "node_statuses t =
     [stage_status t PnpmLint NpmLint, stage_status t PnpmPrettier NpxPrettier,
      stage_status t PnpmTypecheck NpmTypecheck, stage_status t PnpmTest NpmTest]"

definition rust_statuses :: "tools \<Rightarrow> nat list" where
  "rust_statuses t = [t CargoFmt, t CargoClippy, t CargoTest]"

text \<open>
  The statuses of the validator stages one run goes through, in order: none outside
  the implement phase, and a chain only where its manifest is present.
\<close>

definition validator_statuses :: "string \<Rightarrow> fs \<Rightarrow> tools \<Rightarrow> nat list" where
  "validator_statuses PHASE w t =
     (if PHASE = ''implement'' \<and> is_file w ''package.json'' then node_statuses t else [])
     @ (if PHASE = ''implement'' \<and> is_file w ''Cargo.toml'' then rust_statuses t else [])"

text \<open>No validator stage of the run fails.\<close>

definition validators_pass :: "string \<Rightarrow> fs \<Rightarrow> tools \<Rightarrow> bool" where
  "validators_pass PHASE w t = list_all (\<lambda>c. c = 0) (validator_statuses PHASE w t)"

text \<open>
  The statuses of all steps of one run: the artifact gate first (for the five gated
  phases), then the validator stages.
\<close>

definition step_statuses :: "string \<Rightarrow> fs \<Rightarrow> tools \<Rightarrow> nat list" where
  "step_statuses PHASE w t =
     (if gated_phase PHASE then [fst (validate_plugin_artifacts PHASE w)] else [])
     @ validator_statuses PHASE w t"

text \<open>The status of the last step that failed; 0 when none did.\<close>

definition last_failure :: "nat list \<Rightarrow> nat" where
  "last_failure cs = last (0 # filter (\<lambda>c. c \<noteq> 0) cs)"

text \<open>
  The two markers of the specification's mitigation resolver, in its words: a
  recognised mitigation section header, and an owner or timeline token.
\<close>

definition spec_section_header :: "string \<Rightarrow> bool" where
  "spec_section_header txt = grep_q ''Security Mitigations'' txt"

definition spec_detail_marker :: "string \<Rightarrow> bool" where
  "spec_detail_marker txt =
     list_ex (\<lambda>l. contains ''owner'' (lower l) \<or> contains ''timeline'' (lower l)) (lines_of txt)"

text \<open>A producer that removes no file.\<close>

definition keeps_files :: "(fs \<Rightarrow> nat \<times> fs) \<Rightarrow> bool" where
  "keeps_files f = (\<forall>w p. is_file w p \<longrightarrow> is_file (snd (f w)) p)"



text \<open>Inputs of the examples.\<close>

definition all_pass :: tools where
  "all_pass = (\<lambda>c. 0)"

definition no_op :: "fs \<Rightarrow> nat \<times> fs" where
  "no_op w = (0, w)"

definition idle_producers :: producers where
  "idle_producers =
     \<lparr>generate_threat_model = no_op, merge_audits = no_op,
      generate_compliance_report = no_op\<rparr>"

definition bare_env :: env where
  "bare_env =
     \<lparr>ORCHESTRATOR_PLUGIN_MODE = None, has_pnpm = False, has_npm = False,
      has_cargo = False, has_cargo_audit = False, has_pip_audit = False\<rparr>"

section \<open>Text search: what the patterns match\<close>

lemma starts_with_iff: "starts_with p s \<longleftrightarrow> (\<exists>r. s = p @ r)"
  by (induction p s rule: starts_with.induct) auto

lemma contains_iff: "contains p s \<longleftrightarrow> (\<exists>a c. s = a @ p @ c)"
proof (induction s)
  case Nil
  then show ?case by auto
next
  case (Cons x xs)
  show ?case
  proof
    assume "contains p (x # xs)"
    then consider "starts_with p (x # xs)" | "contains p xs" by auto
    then show "\<exists>a c. x # xs = a @ p @ c"
    proof cases
      case 1
      then obtain r where "x # xs = p @ r" by (auto simp: starts_with_iff)
      then have "x # xs = [] @ p @ r" by simp
      then show ?thesis by blast
    next
      case 2
      then obtain a c where "xs = a @ p @ c" using Cons.IH by blast
      then have "x # xs = (x # a) @ p @ c" by simp
      then show ?thesis by blast
    qed
  next
    assume "\<exists>a c. x # xs = a @ p @ c"
    then obtain a c where ac: "x # xs = a @ p @ c" by blast
    show "contains p (x # xs)"
    proof (cases a)
      case Nil
      then have "starts_with p (x # xs)" using ac by (auto simp: starts_with_iff)
      then show ?thesis by simp
    next
      case (Cons y ys)
      then have "xs = ys @ p @ c" using ac by simp
      then have "contains p xs" using Cons.IH by blast
      then show ?thesis by simp
    qed
  qed
qed

lemma dot_star_then_iff:
  "dot_star_then q s \<longleftrightarrow> (\<exists>b c. s = b @ q @ c \<and> list_all dot_matches b)"
proof (induction s)
  case Nil
  then show ?case by auto
next
  case (Cons x xs)
  show ?case
  proof
    assume "dot_star_then q (x # xs)"
    then consider "starts_with q (x # xs)" | "dot_matches x \<and> dot_star_then q xs" by auto
    then show "\<exists>b c. x # xs = b @ q @ c \<and> list_all dot_matches b"
    proof cases
      case 1
      then obtain r where "x # xs = q @ r" by (auto simp: starts_with_iff)
      then have "x # xs = [] @ q @ r \<and> list_all dot_matches []" by simp
      then show ?thesis by blast
    next
      case 2
      then obtain b c where "xs = b @ q @ c" and "list_all dot_matches b"
        using Cons.IH by blast
      with 2 have "x # xs = (x # b) @ q @ c \<and> list_all dot_matches (x # b)" by simp
      then show ?thesis by blast
    qed
  next
    assume "\<exists>b c. x # xs = b @ q @ c \<and> list_all dot_matches b"
    then obtain b c where bc: "x # xs = b @ q @ c" and d: "list_all dot_matches b" by blast
    show "dot_star_then q (x # xs)"
    proof (cases b)
      case Nil
      then have "starts_with q (x # xs)" using bc by (auto simp: starts_with_iff)
      then show ?thesis by simp
    next
      case (Cons y ys)
      then have "xs = ys @ q @ c" and "dot_matches x" and "list_all dot_matches ys"
        using bc d by auto
      then have "dot_matches x \<and> dot_star_then q xs" using Cons.IH by blast
      then show ?thesis by simp
    qed
  qed
qed

lemma contains_then_iff:
  "contains_then p q s \<longleftrightarrow> (\<exists>a b c. s = a @ p @ b @ q @ c \<and> list_all dot_matches b)"
proof (induction s)
  case Nil
  then show ?case by auto
next
  case (Cons x xs)
  show ?case
  proof
    assume "contains_then p q (x # xs)"
    then consider "starts_with p (x # xs) \<and> dot_star_then q (drop (length p) (x # xs))"
      | "contains_then p q xs" by auto
    then show "\<exists>a b c. x # xs = a @ p @ b @ q @ c \<and> list_all dot_matches b"
    proof cases
      case 1
      then obtain r where r: "x # xs = p @ r" by (auto simp: starts_with_iff)
      then have "drop (length p) (x # xs) = r" by (metis append_eq_conv_conj)
      with 1 obtain b c where "r = b @ q @ c" and "list_all dot_matches b"
        by (auto simp: dot_star_then_iff)
      with r have "x # xs = [] @ p @ b @ q @ c \<and> list_all dot_matches b" by simp
      then show ?thesis by blast
    next
      case 2
      then obtain a b c where "xs = a @ p @ b @ q @ c" and "list_all dot_matches b"
        using Cons.IH by blast
      then have "x # xs = (x # a) @ p @ b @ q @ c \<and> list_all dot_matches b" by simp
      then show ?thesis by blast
    qed
  next
    assume "\<exists>a b c. x # xs = a @ p @ b @ q @ c \<and> list_all dot_matches b"
    then obtain a b c where abc: "x # xs = a @ p @ b @ q @ c" and d: "list_all dot_matches b"
      by blast
    show "contains_then p q (x # xs)"
    proof (cases a)
      case Nil
      then have e: "x # xs = p @ (b @ q @ c)" using abc by simp
      then have 1: "starts_with p (x # xs)" unfolding starts_with_iff by blast
      from e have "drop (length p) (x # xs) = b @ q @ c" by (metis append_eq_conv_conj)
      then have "dot_star_then q (drop (length p) (x # xs))"
        unfolding dot_star_then_iff using d by blast
      with 1 show ?thesis by simp
    next
      case (Cons y ys)
      then have "xs = ys @ p @ b @ q @ c" using abc by simp
      then have "contains_then p q xs" using Cons.IH d by blast
      then show ?thesis by simp
    qed
  qed
qed

lemma severity_line_iff:
  "severity_line l \<longleftrightarrow>
     (\<exists>a b c. (lower l = a @ ''severity'' @ b @ ''critical'' @ c
             \<or> lower l = a @ ''severity'' @ b @ ''high'' @ c)
            \<and> list_all dot_matches b)"
  unfolding severity_line_def contains_then_iff by blast

text \<open>
  The two patterns on sample lines: a NUL byte inside a word or between the two words
  stops the match, a NUL byte elsewhere does not; the order of the words matters; a tab
  or a carriage return is a byte like any other. A plan report with a NUL byte between
  the two words is no finding, and the plan phase passes.
\<close>

lemma grep_samples:
  "\<not> grep_qi_severity (''sever'' @ [CHR 0x00] @ ''ity high'')
   \<and> \<not> grep_qi_severity (''severity hi'' @ [CHR 0x00] @ ''gh'')
   \<and> grep_qi_severity (''severity'' @ [CHR 0x00] @ '' x severity high'')
   \<and> grep_qi_severity (''a'' @ [CHR 0x00] @ ''b\<newline>Severity: HIGH\<newline>'')
   \<and> grep_qi_severity (''SEVERITY'' @ [CHR 0x09] @ ''CRITICAL'' @ [CHR 0x0D] @ ''\<newline>'')
   \<and> grep_qi_severity ''severityhigh''
   \<and> \<not> grep_qi_severity ''high severity''
   \<and> grep_q ''Security Mitigations'' (''abc'' @ [CHR 0x00] @ ''Security Mitigations'')
   \<and> \<not> grep_q ''Security Mitigations'' (''Security'' @ [CHR 0x00] @ '' Mitigations'')
   \<and> \<not> grep_q ''Security Mitigations'' ''Security\<newline>Mitigations''
   \<and> EXIT_CODE (lint_phase (Some ''plan'')
        [plan_scan \<mapsto> ''severity'' @ [CHR 0x00] @ ''high''] all_pass) = 0"
  by code_simp

section \<open>The run state through the chains\<close>

lemma EXIT_CODE_echo [simp]: "EXIT_CODE (echo l s) = EXIT_CODE s"
  by (simp add: echo_def)

lemma ran_echo [simp]: "ran (echo l s) = ran s"
  by (simp add: echo_def)

lemma out_echo [simp]: "out (echo l s) = out s @ [l]"
  by (simp add: echo_def)

lemma EXIT_CODE_or_record [simp]:
  "EXIT_CODE (or_record t a s) = (if t a = 0 then EXIT_CODE s else t a)"
  by (simp add: or_record_def Let_def)

lemma ran_or_record [simp]: "ran (or_record t a s) = ran s @ [a]"
  by (simp add: or_record_def Let_def)

lemma out_or_record [simp]: "out (or_record t a s) = out s"
  by (simp add: or_record_def Let_def)

lemma EXIT_CODE_or_else_record [simp]:
  "EXIT_CODE (or_else_record t a b s) =
     (if stage_status t a b = 0 then EXIT_CODE s else stage_status t a b)"
  by (simp add: or_else_record_def stage_status_def Let_def)

lemma ran_or_else_record [simp]:
  "ran (or_else_record t a b s) = ran s @ stage_trace t a b"
  by (simp add: or_else_record_def stage_trace_def Let_def)

lemma out_or_else_record [simp]: "out (or_else_record t a b s) = out s"
  by (simp add: or_else_record_def Let_def)

lemma last_failure_Nil [simp]: "last_failure [] = 0"
  by (simp add: last_failure_def)

lemma last_failure_snoc [simp]:
  "last_failure (cs @ [c]) = (if c = 0 then last_failure cs else c)"
  by (simp add: last_failure_def)

lemma last_failure_single [simp]: "last_failure [c] = c"
  by (simp add: last_failure_def)

lemma last_failure_append:
  "last_failure (cs @ ds) = (if last_failure ds = 0 then last_failure cs else last_failure ds)"
proof (induction ds rule: rev_induct)
  case Nil
  then show ?case by simp
next
  case (snoc d ds)
  have "last_failure (cs @ ds @ [d]) = last_failure ((cs @ ds) @ [d])" by simp
  also have "\<dots> = (if d = 0 then last_failure (cs @ ds) else d)"
    by (rule last_failure_snoc)
  finally show ?case using snoc by simp
qed

lemma last_failure_zero_iff: "last_failure cs = 0 \<longleftrightarrow> list_all (\<lambda>c. c = 0) cs"
  by (induction cs rule: rev_induct) auto

lemma EXIT_CODE_node_chain:
  "EXIT_CODE (node_chain t s) =
     (if last_failure (node_statuses t) = 0 then EXIT_CODE s else last_failure (node_statuses t))"
  by (simp add: node_chain_def Let_def node_statuses_def last_failure_def)

lemma EXIT_CODE_rust_chain:
  "EXIT_CODE (rust_chain t s) =
     (if last_failure (rust_statuses t) = 0 then EXIT_CODE s else last_failure (rust_statuses t))"
  by (simp add: rust_chain_def Let_def rust_statuses_def last_failure_def)

lemma ran_node_chain:
  "ran (node_chain t s) =
     ran s @ stage_trace t PnpmLint NpmLint @ stage_trace t PnpmPrettier NpxPrettier
       @ stage_trace t PnpmTypecheck NpmTypecheck @ stage_trace t PnpmTest NpmTest"
  by (simp add: node_chain_def Let_def)

lemma ran_rust_chain: "ran (rust_chain t s) = ran s @ [CargoFmt, CargoClippy, CargoTest]"
  by (simp add: rust_chain_def Let_def)

lemma EXIT_CODE_finish [simp]: "EXIT_CODE (finish s) = EXIT_CODE s"
  by (simp add: finish_def)

lemma ran_finish [simp]: "ran (finish s) = ran s"
  by (simp add: finish_def)

lemma EXIT_CODE_checks:
  "EXIT_CODE (rust_checks PHASE w t (node_checks PHASE w t s)) =
     (if last_failure (validator_statuses PHASE w t) = 0 then EXIT_CODE s
      else last_failure (validator_statuses PHASE w t))"
  by (simp add: rust_checks_def node_checks_def validator_statuses_def
      EXIT_CODE_node_chain EXIT_CODE_rust_chain last_failure_append)

lemma EXIT_CODE_artifact_gate:
  "EXIT_CODE (artifact_gate PHASE w s) =
     (if gated_phase PHASE \<and> fst (validate_plugin_artifacts PHASE w) \<noteq> 0
      then fst (validate_plugin_artifacts PHASE w) else EXIT_CODE s)"
  by (simp add: artifact_gate_def Let_def)

lemma EXIT_CODE_lint_phase:
  "EXIT_CODE (lint_phase arg w t) =
     (if last_failure (validator_statuses (phase_arg arg) w t) = 0 then
        (if gated_phase (phase_arg arg) then fst (validate_plugin_artifacts (phase_arg arg) w) else 0)
      else last_failure (validator_statuses (phase_arg arg) w t))"
  by (simp add: lint_phase_def Let_def EXIT_CODE_checks EXIT_CODE_artifact_gate)

lemma EXIT_CODE_lint_phase_plain:
  "EXIT_CODE (lint_phase_plain arg w t) = last_failure (validator_statuses (phase_arg arg) w t)"
  by (simp add: lint_phase_plain_def Let_def EXIT_CODE_checks)

lemma ran_artifact_gate [simp]: "ran (artifact_gate PHASE w s) = ran s"
  by (simp add: artifact_gate_def Let_def)

lemma ran_checks_implement:
  "ran (rust_checks ''implement'' w t (node_checks ''implement'' w t s)) =
     ran s
     @ (if is_file w ''package.json'' then
          stage_trace t PnpmLint NpmLint @ stage_trace t PnpmPrettier NpxPrettier
          @ stage_trace t PnpmTypecheck NpmTypecheck @ stage_trace t PnpmTest NpmTest
        else [])
     @ (if is_file w ''Cargo.toml'' then [CargoFmt, CargoClippy, CargoTest] else [])"
  by (simp add: rust_checks_def node_checks_def ran_node_chain ran_rust_chain)

lemma last_failure_in_set: "last_failure cs \<noteq> 0 \<Longrightarrow> last_failure cs \<in> set cs"
  by (induction cs rule: rev_induct) (auto split: if_splits)

section \<open>The artifact gate\<close>

lemma missing_artifacts_filter:
  "missing_artifacts PHASE w = filter (\<lambda>p. \<not> is_file w p) (required_artifacts PHASE w)"
  by (simp add: missing_artifacts_def required_artifacts_def missing_if_absent_def)

lemma scan_reports_code: "fst (scan_reports w rs) = 0 \<or> fst (scan_reports w rs) = 2"
  by (induction rs) (auto split: option.splits)

lemma scan_reports_single:
  "w r = Some txt \<Longrightarrow>
   fst (scan_reports w [r]) =
     (if grep_qi_severity txt \<and> \<not> mitigation_documented w \<and> \<not> waiver_documented w
      then 2 else 0)"
  by simp

lemma validate_code_missing:
  "missing_artifacts PHASE w \<noteq> [] \<Longrightarrow> fst (validate_plugin_artifacts PHASE w) = 1"
  by (simp add: validate_plugin_artifacts_def)

lemma validate_code_present:
  "missing_artifacts PHASE w = [] \<Longrightarrow>
   fst (validate_plugin_artifacts PHASE w) = fst (check_security_findings PHASE w)"
  by (simp add: validate_plugin_artifacts_def Let_def)

lemma validate_codes:
  "fst (validate_plugin_artifacts PHASE w) = 0 \<or> fst (validate_plugin_artifacts PHASE w) = 1
   \<or> fst (validate_plugin_artifacts PHASE w) = 2"
  using scan_reports_code[of w "report_files PHASE"]
  by (auto simp: validate_plugin_artifacts_def Let_def check_security_findings_def)

lemma validate_never_3: "fst (validate_plugin_artifacts PHASE w) \<noteq> 3"
  using validate_codes[of PHASE w] by auto

lemma out_validate_missing:
  "p \<in> set (missing_artifacts PHASE w) \<Longrightarrow>
   MissingItem p \<in> set (snd (validate_plugin_artifacts PHASE w))"
  by (auto simp: validate_plugin_artifacts_def)

lemma out_or_else_mono: "set (out s) \<subseteq> set (out (or_else_record t a b s))"
  by simp

lemma out_node_checks: "set (out s) \<subseteq> set (out (node_checks PHASE w t s))"
  by (auto simp: node_checks_def node_chain_def Let_def)

lemma out_rust_checks: "set (out s) \<subseteq> set (out (rust_checks PHASE w t s))"
  by (auto simp: rust_checks_def rust_chain_def Let_def)

lemma out_finish: "set (out s) \<subseteq> set (out (finish s))"
  by (auto simp: finish_def)

lemma out_artifact_gate:
  "gated_phase PHASE \<Longrightarrow>
   set (snd (validate_plugin_artifacts PHASE w)) \<subseteq> set (out (artifact_gate PHASE w s))"
  by (auto simp: artifact_gate_def Let_def)

lemma out_lint_phase:
  "gated_phase (phase_arg arg) \<Longrightarrow>
   set (snd (validate_plugin_artifacts (phase_arg arg) w)) \<subseteq> set (out (lint_phase arg w t))"
  unfolding lint_phase_def Let_def
  using out_artifact_gate out_node_checks out_rust_checks out_finish
  by (meson subset_trans)

lemma required_gated: "p \<in> set (required_artifacts PHASE w) \<Longrightarrow> gated_phase PHASE"
  by (auto simp: required_artifacts_def gated_phase_def split: if_splits)

lemma report_files_single:
  "report_files PHASE = [r] \<Longrightarrow> gated_phase PHASE \<and> phase_arg (Some PHASE) = PHASE"
  by (auto simp: report_files_def gated_phase_def phase_arg_def split: if_splits)

lemma gate_code_single_report:
  assumes "report_files PHASE = [r]" and "w r = Some txt" and "grep_qi_severity txt"
    and "missing_artifacts PHASE w = []"
  shows "fst (validate_plugin_artifacts PHASE w) =
           (if mitigation_documented w \<or> waiver_documented w then 0 else 2)"
  using assms by (simp add: validate_code_present check_security_findings_def)

lemma exit_code_validators_pass:
  "validators_pass (phase_arg arg) w t \<Longrightarrow>
   EXIT_CODE (lint_phase arg w t) =
     (if gated_phase (phase_arg arg) then fst (validate_plugin_artifacts (phase_arg arg) w)
      else 0)"
  by (simp add: EXIT_CODE_lint_phase validators_pass_def last_failure_zero_iff)

lemma validators_pass_not_implement: "PHASE \<noteq> ''implement'' \<Longrightarrow> validators_pass PHASE w t"
  by (simp add: validators_pass_def validator_statuses_def)

lemma exit_code_last_failure:
  "EXIT_CODE (lint_phase arg w t) = last_failure (step_statuses (phase_arg arg) w t)"
  by (simp add: EXIT_CODE_lint_phase step_statuses_def last_failure_append)

lemma exit_3_only_from_validators:
  "EXIT_CODE (lint_phase arg w t) = 3 \<Longrightarrow> 3 \<in> set (validator_statuses (phase_arg arg) w t)"
  using validate_never_3[of "phase_arg arg" w]
    last_failure_in_set[of "validator_statuses (phase_arg arg) w t"]
  by (auto simp: EXIT_CODE_lint_phase split: if_splits)

section \<open>What a run reads of the workspace\<close>

lemma is_file_upd_same: "is_file w p \<Longrightarrow> is_file (w(p \<mapsto> x)) q = is_file w q"
  by (simp add: is_file_def)

lemma tasks_unit_help_distinct:
  "tasks_unit_help \<noteq> spec_findings" "tasks_unit_help \<noteq> plan_scan"
  "tasks_unit_help \<noteq> implement_scan" "tasks_unit_help \<noteq> analyze_deltas"
  "tasks_unit_help \<noteq> plan_md" "tasks_unit_help \<noteq> decisions_md"
  by (simp_all add: tasks_unit_help_def spec_findings_def plan_scan_def implement_scan_def
      analyze_deltas_def plan_md_def decisions_md_def)

lemma analyze_compliance_distinct:
  "analyze_compliance \<noteq> spec_findings" "analyze_compliance \<noteq> plan_scan"
  "analyze_compliance \<noteq> implement_scan" "analyze_compliance \<noteq> analyze_deltas"
  "analyze_compliance \<noteq> plan_md" "analyze_compliance \<noteq> decisions_md"
  by (simp_all add: analyze_compliance_def spec_findings_def plan_scan_def implement_scan_def
      analyze_deltas_def plan_md_def decisions_md_def)

text \<open>The check reads the reports of the phase and the two mitigation documents only.\<close>

lemma scan_reports_cong:
  "\<forall>r \<in> set rs. w' r = w r \<Longrightarrow> w' plan_md = w plan_md \<Longrightarrow> w' decisions_md = w decisions_md \<Longrightarrow>
   scan_reports w' rs = scan_reports w rs"
  by (induction rs) (auto simp: mitigation_documented_def waiver_documented_def split: option.splits)

lemma report_files_subset:
  "set (report_files PHASE) \<subseteq> {spec_findings, plan_scan, implement_scan, analyze_deltas}"
  by (auto simp: report_files_def)

lemma check_security_findings_upd:
  assumes "p \<notin> {spec_findings, plan_scan, implement_scan, analyze_deltas, plan_md, decisions_md}"
  shows "check_security_findings PHASE (w(p \<mapsto> x)) = check_security_findings PHASE w"
  unfolding check_security_findings_def
proof (rule scan_reports_cong)
  show "\<forall>r\<in>set (report_files PHASE). (w(p \<mapsto> x)) r = w r"
    using assms report_files_subset[of PHASE] by auto
qed (use assms in auto)

lemma missing_artifacts_upd:
  "is_file w p \<Longrightarrow> missing_artifacts PHASE (w(p \<mapsto> x)) = missing_artifacts PHASE w"
  by (simp add: missing_artifacts_def missing_if_absent_def is_file_upd_same)

lemma lint_phase_upd:
  assumes "is_file w p"
    and "p \<notin> {spec_findings, plan_scan, implement_scan, analyze_deltas, plan_md, decisions_md}"
  shows "lint_phase arg (w(p \<mapsto> x)) t = lint_phase arg w t"
proof -
  have v: "validate_plugin_artifacts PHASE (w(p \<mapsto> x)) = validate_plugin_artifacts PHASE w"
    for PHASE
    by (simp add: validate_plugin_artifacts_def missing_artifacts_upd[OF assms(1)]
        check_security_findings_upd[OF assms(2)])
  have g: "artifact_gate PHASE (w(p \<mapsto> x)) s = artifact_gate PHASE w s" for PHASE s
    by (simp add: artifact_gate_def v)
  have n: "node_checks PHASE (w(p \<mapsto> x)) t s = node_checks PHASE w t s" for PHASE s
    by (simp add: node_checks_def is_file_upd_same[OF assms(1)])
  have r: "rust_checks PHASE (w(p \<mapsto> x)) t s = rust_checks PHASE w t s" for PHASE s
    by (simp add: rust_checks_def is_file_upd_same[OF assms(1)])
  show ?thesis by (simp add: lint_phase_def g n r)
qed

section \<open>The runtime and the phase check\<close>

lemma not_gated_distinct:
  "\<not> gated_phase PHASE \<Longrightarrow>
   PHASE \<noteq> ''spec'' \<and> PHASE \<noteq> ''plan'' \<and> PHASE \<noteq> ''tasks'' \<and> PHASE \<noteq> ''implement''
   \<and> PHASE \<noteq> ''analyze''"
  by (auto simp: gated_phase_def)

lemma plugins_runtime_unknown:
  "\<not> gated_phase PHASE \<Longrightarrow> plugins_runtime e pr (Some PHASE) w = unknown_phase PHASE w"
  by (drule not_gated_distinct) (simp add: plugins_runtime_def)

lemma hook_passes_unknown:
  assumes "PHASE \<noteq> []" and "\<not> gated_phase PHASE"
  shows "EXIT_CODE (lint_phase (Some PHASE) w t) = 0"
    and "EXIT_CODE (lint_phase_plain (Some PHASE) w t) = 0"
proof -
  have a: "phase_arg (Some PHASE) = PHASE" using assms(1) by (simp add: phase_arg_def)
  have v: "validator_statuses PHASE w t = []"
    using not_gated_distinct[OF assms(2)] by (simp add: validator_statuses_def)
  show "EXIT_CODE (lint_phase (Some PHASE) w t) = 0"
    using assms(2) by (simp add: EXIT_CODE_lint_phase a v)
  show "EXIT_CODE (lint_phase_plain (Some PHASE) w t) = 0"
    by (simp add: EXIT_CODE_lint_phase_plain a v)
qed
















text \<open>
  Should a run of the implement phase outside claude mode reach the \<open>mv\<close> and end with
  status 0, the plan scan has left its path.
\<close>

lemma cli_implement_moves_plan_scan:
  assumes "status (run_cli_implement e pr w) = 0"
  shows "\<not> is_file (files (run_cli_implement e pr w)) plan_scan"
proof -
  let ?rp = "run_cli_plan e pr w"
  have s: "status ?rp = 0"
    using assms by (cases "status ?rp = 0") (simp_all add: run_cli_implement_def and_then_def)
  with assms have "status (mv_f plan_scan implement_scan (files ?rp)) = 0"
    by (simp add: run_cli_implement_def and_then_def Let_def)
  then have "\<not> is_file (files (mv_f plan_scan implement_scan (files ?rp))) plan_scan"
    by (simp add: mv_f_def is_file_def split: if_splits)
  with s show ?thesis by (simp add: run_cli_implement_def and_then_def Let_def)
qed


lemma keeps_files_no_op: "keeps_files no_op"
  by (simp add: keeps_files_def no_op_def)









section \<open>Claims\<close>

subsection \<open>C1: an undocumented blocking finding\<close>

text \<open>
  Claim C1, as the script has it. Take a phase with a security report (spec, plan,
  implement or analyze) whose report exists and has a CRITICAL or HIGH severity marker,
  with no Security Mitigations text in plans/plan.md and no Security Finding Waiver
  text in DECISIONS.md. If every required artifact of the phase exists and no validator
  stage fails, the run exits with code 2.
\<close>

theorem C1_unmitigated_finding_exit_2:
  assumes "report_files PHASE = [r]" and "w r = Some txt" and "grep_qi_severity txt"
    and "\<not> mitigation_documented w" and "\<not> waiver_documented w"
    and "missing_artifacts PHASE w = []" and "validators_pass PHASE w t"
  shows "EXIT_CODE (lint_phase (Some PHASE) w t) = 2"
proof -
  from assms(1) have g: "gated_phase PHASE" and a: "phase_arg (Some PHASE) = PHASE"
    using report_files_single by blast+
  have "fst (validate_plugin_artifacts PHASE w) = 2"
    using gate_code_single_report[OF assms(1,2,3,6)] assms(4,5) by simp
  with g a assms(7) show ?thesis
    using exit_code_validators_pass[of "Some PHASE" w t] by simp
qed

text \<open>Scenario B of the specification: the plan phase, a HIGH finding, no documents.\<close>

theorem C1_witness:
  "EXIT_CODE (lint_phase (Some ''plan'') [plan_scan \<mapsto> ''Severity: HIGH''] all_pass) = 2"
proof -
  let ?w = "[plan_scan \<mapsto> ''Severity: HIGH'']"
  have 1: "report_files ''plan'' = [plan_scan]" by code_simp
  have 2: "?w plan_scan = Some ''Severity: HIGH''" by simp
  have 3: "grep_qi_severity ''Severity: HIGH''" by code_simp
  have 4: "\<not> mitigation_documented ?w" by code_simp
  have 5: "\<not> waiver_documented ?w" by code_simp
  have 6: "missing_artifacts ''plan'' ?w = []" by code_simp
  have 7: "validators_pass ''plan'' ?w all_pass" by code_simp
  show ?thesis by (rule C1_unmitigated_finding_exit_2[OF 1 2 3 4 5 6 7])
qed

text \<open>
  Claim C1 as stated fails in two ways. In the implement phase a failing validator stage
  (here cargo test, status 101) replaces the 2; in the analyze phase the security report
  can exist while the compliance report is missing, and the run exits with 1 before any
  finding is looked at.
\<close>

theorem C1_counterexample:
  "grep_qi_severity ''Severity: HIGH''
   \<and> \<not> mitigation_documented [implement_scan \<mapsto> ''Severity: HIGH'', ''Cargo.toml'' \<mapsto> '''']
   \<and> \<not> waiver_documented [implement_scan \<mapsto> ''Severity: HIGH'', ''Cargo.toml'' \<mapsto> '''']
   \<and> EXIT_CODE (lint_phase (Some ''implement'')
        [implement_scan \<mapsto> ''Severity: HIGH'', ''Cargo.toml'' \<mapsto> '''']
        (\<lambda>c. if c = CargoTest then 101 else 0)) = 101
   \<and> \<not> mitigation_documented [analyze_deltas \<mapsto> ''Severity: HIGH'']
   \<and> \<not> waiver_documented [analyze_deltas \<mapsto> ''Severity: HIGH'']
   \<and> EXIT_CODE (lint_phase (Some ''analyze'') [analyze_deltas \<mapsto> ''Severity: HIGH'']
        all_pass) = 1"
  by code_simp

subsection \<open>C2: missing artifacts\<close>

text \<open>
  Claim C2, as the script has it. For every phase, each required artifact that does not
  exist is named in the output of the same run (the gate collects all of them before it
  returns), and the run exits non-zero. The exit code is 1 when no validator stage
  fails afterwards, which is always so outside the implement phase.
\<close>

theorem C2_missing_artifacts_reported:
  assumes "p \<in> set (required_artifacts (phase_arg arg) w)" and "\<not> is_file w p"
  shows "MissingItem p \<in> set (out (lint_phase arg w t))
         \<and> EXIT_CODE (lint_phase arg w t) \<noteq> 0
         \<and> (validators_pass (phase_arg arg) w t \<longrightarrow> EXIT_CODE (lint_phase arg w t) = 1)"
proof -
  let ?P = "phase_arg arg"
  have g: "gated_phase ?P" using assms(1) by (rule required_gated)
  have m: "p \<in> set (missing_artifacts ?P w)"
    using assms by (simp add: missing_artifacts_filter)
  then have c: "fst (validate_plugin_artifacts ?P w) = 1"
    by (intro validate_code_missing) auto
  have "MissingItem p \<in> set (snd (validate_plugin_artifacts ?P w))"
    using m by (rule out_validate_missing)
  then have 1: "MissingItem p \<in> set (out (lint_phase arg w t))"
    using out_lint_phase[OF g] by blast
  have 2: "EXIT_CODE (lint_phase arg w t) \<noteq> 0"
    using g c by (simp add: EXIT_CODE_lint_phase)
  have 3: "validators_pass ?P w t \<longrightarrow> EXIT_CODE (lint_phase arg w t) = 1"
    using g c by (simp add: EXIT_CODE_lint_phase validators_pass_def last_failure_zero_iff)
  from 1 2 3 show ?thesis by blast
qed

text \<open>
  The analyze phase in an empty workspace: both required reports are named, exit code 1.
\<close>

theorem C2_missing_artifacts_reported_witness:
  "MissingItem analyze_deltas \<in> set (out (lint_phase (Some ''analyze'') Map.empty all_pass))
   \<and> MissingItem analyze_compliance
       \<in> set (out (lint_phase (Some ''analyze'') Map.empty all_pass))
   \<and> EXIT_CODE (lint_phase (Some ''analyze'') Map.empty all_pass) = 1"
proof -
  have r1: "analyze_deltas \<in> set (required_artifacts (phase_arg (Some ''analyze'')) Map.empty)"
    by code_simp
  have r2: "analyze_compliance
              \<in> set (required_artifacts (phase_arg (Some ''analyze'')) Map.empty)"
    by code_simp
  have a1: "\<not> is_file Map.empty analyze_deltas" and a2: "\<not> is_file Map.empty analyze_compliance"
    by (simp_all add: is_file_def)
  have v: "validators_pass (phase_arg (Some ''analyze'')) Map.empty all_pass"
    by code_simp
  from C2_missing_artifacts_reported[OF r1 a1, of all_pass]
       C2_missing_artifacts_reported[OF r2 a2, of all_pass] v
  show ?thesis by blast
qed

text \<open>
  Claim C2 as stated fails: in the implement phase with the scan report missing and a
  Rust workspace whose tests fail with status 101, the run exits with 101, not 1.
\<close>

theorem C2_exit_code_counterexample:
  "implement_scan \<in> set (required_artifacts ''implement'' [''Cargo.toml'' \<mapsto> ''''])
   \<and> \<not> is_file [''Cargo.toml'' \<mapsto> ''''] implement_scan
   \<and> EXIT_CODE (lint_phase (Some ''implement'') [''Cargo.toml'' \<mapsto> '''']
        (\<lambda>c. if c = CargoTest then 101 else 0)) = 101"
  by code_simp

subsection \<open>C3: what resolves a finding\<close>

text \<open>
  Claim C3, as the script has it. A blocking finding counts as resolved exactly when
  plans/plan.md has the text Security Mitigations on some line, or DECISIONS.md has the
  text Security Finding Waiver; otherwise the check returns 2 and, with the artifacts
  present and the validators passing, the run exits with 2. No owner or timeline
  marker is looked for: such a marker without the section header resolves nothing, and
  the header needs no such marker.
\<close>

theorem C3_resolution_by_header_or_waiver:
  assumes "report_files PHASE = [r]" and "w r = Some txt" and "grep_qi_severity txt"
    and "missing_artifacts PHASE w = []" and "validators_pass PHASE w t"
  shows "fst (check_security_findings PHASE w) =
           (if mitigation_documented w \<or> waiver_documented w then 0 else 2)
         \<and> EXIT_CODE (lint_phase (Some PHASE) w t) =
           (if mitigation_documented w \<or> waiver_documented w then 0 else 2)"
proof -
  from assms(1) have g: "gated_phase PHASE" and a: "phase_arg (Some PHASE) = PHASE"
    using report_files_single by blast+
  have c: "fst (validate_plugin_artifacts PHASE w) =
             (if mitigation_documented w \<or> waiver_documented w then 0 else 2)"
    by (rule gate_code_single_report[OF assms(1,2,3,4)])
  have 1: "fst (check_security_findings PHASE w) =
             (if mitigation_documented w \<or> waiver_documented w then 0 else 2)"
    using c assms(4) by (simp add: validate_code_present)
  have 2: "EXIT_CODE (lint_phase (Some PHASE) w t) =
             (if mitigation_documented w \<or> waiver_documented w then 0 else 2)"
    using exit_code_validators_pass[of "Some PHASE" w t] g a assms(5) c by simp
  from 1 2 show ?thesis by blast
qed

text \<open>An owner and a timeline without the section header: the finding stays open.\<close>

theorem C3_witness:
  "spec_detail_marker ''Owner: alice\<newline>Timeline: Q3''
   \<and> EXIT_CODE (lint_phase (Some ''plan'')
        [plan_scan \<mapsto> ''Severity: CRITICAL'', plan_md \<mapsto> ''Owner: alice\<newline>Timeline: Q3'']
        all_pass) = 2"
proof -
  let ?w = "[plan_scan \<mapsto> ''Severity: CRITICAL'', plan_md \<mapsto> ''Owner: alice\<newline>Timeline: Q3'']"
  have 1: "report_files ''plan'' = [plan_scan]" by code_simp
  have 2: "?w plan_scan = Some ''Severity: CRITICAL''" by code_simp
  have 3: "grep_qi_severity ''Severity: CRITICAL''" by code_simp
  have 4: "missing_artifacts ''plan'' ?w = []" by code_simp
  have 5: "validators_pass ''plan'' ?w all_pass" by code_simp
  have 6: "\<not> (mitigation_documented ?w \<or> waiver_documented ?w)" by code_simp
  have 7: "spec_detail_marker ''Owner: alice\<newline>Timeline: Q3''" by code_simp
  from C3_resolution_by_header_or_waiver[OF 1 2 3 4 5] 6 7 show ?thesis by simp
qed

text \<open>
  Claim C3 as stated fails: a plan document with the section header alone, no owner or
  timeline token and no waiver, resolves a CRITICAL finding and the run exits with 0.
\<close>

theorem C3_header_only_counterexample:
  "spec_section_header ''## Security Mitigations''
   \<and> \<not> spec_detail_marker ''## Security Mitigations''
   \<and> \<not> waiver_documented
         [plan_scan \<mapsto> ''Severity: CRITICAL'', plan_md \<mapsto> ''## Security Mitigations'']
   \<and> EXIT_CODE (lint_phase (Some ''plan'')
        [plan_scan \<mapsto> ''Severity: CRITICAL'', plan_md \<mapsto> ''## Security Mitigations'']
        all_pass) = 0"
  by code_simp

subsection \<open>C4: the exit code of a run\<close>

text \<open>
  Claim C4, as the script has it. The exit code of a run is 0 exactly when no step
  failed (the artifact gate, then the validator stages): a failure recorded by the gate
  is never turned into success by validators that pass. When no validator stage fails,
  the exit code is the code the artifact gate recorded (1 for missing artifacts, 2 for
  an undocumented finding). A non-zero exit code is always the status of a step that
  failed in the run. The script keeps no order of severity among the codes.
\<close>

theorem C4_exit_code_reflects_failures:
  "((EXIT_CODE (lint_phase arg w t) = 0)
      = list_all (\<lambda>c. c = 0) (step_statuses (phase_arg arg) w t))
   \<and> (validators_pass (phase_arg arg) w t \<longrightarrow>
        EXIT_CODE (lint_phase arg w t) =
          (if gated_phase (phase_arg arg)
           then fst (validate_plugin_artifacts (phase_arg arg) w) else 0))
   \<and> (EXIT_CODE (lint_phase arg w t) \<noteq> 0 \<longrightarrow>
        EXIT_CODE (lint_phase arg w t) \<in> set (step_statuses (phase_arg arg) w t))"
proof -
  have e: "EXIT_CODE (lint_phase arg w t) = last_failure (step_statuses (phase_arg arg) w t)"
    by (rule exit_code_last_failure)
  have 1: "(EXIT_CODE (lint_phase arg w t) = 0)
             = list_all (\<lambda>c. c = 0) (step_statuses (phase_arg arg) w t)"
    using e by (simp add: last_failure_zero_iff)
  have 2: "validators_pass (phase_arg arg) w t \<longrightarrow>
        EXIT_CODE (lint_phase arg w t) =
          (if gated_phase (phase_arg arg)
           then fst (validate_plugin_artifacts (phase_arg arg) w) else 0)"
    using exit_code_validators_pass[of arg w t] by blast
  have 3: "EXIT_CODE (lint_phase arg w t) \<noteq> 0 \<longrightarrow>
        EXIT_CODE (lint_phase arg w t) \<in> set (step_statuses (phase_arg arg) w t)"
    using e last_failure_in_set[of "step_statuses (phase_arg arg) w t"] by simp
  from 1 2 3 show ?thesis by blast
qed

text \<open>
  An undocumented HIGH finding in the implement phase with both workspaces present and
  every validator passing: the 2 of the gate is the exit code.
\<close>

theorem C4_exit_code_reflects_failures_witness:
  "EXIT_CODE (lint_phase (Some ''implement'')
      [implement_scan \<mapsto> ''Severity: HIGH'', ''package.json'' \<mapsto> ''{}'',
       ''Cargo.toml'' \<mapsto> ''[workspace]'']
      all_pass) = 2"
proof -
  let ?w = "[implement_scan \<mapsto> ''Severity: HIGH'', ''package.json'' \<mapsto> ''{}'',
             ''Cargo.toml'' \<mapsto> ''[workspace]'']"
  have v: "validators_pass (phase_arg (Some ''implement'')) ?w all_pass"
    by code_simp
  have g: "(if gated_phase (phase_arg (Some ''implement''))
            then fst (validate_plugin_artifacts (phase_arg (Some ''implement'')) ?w) else 0) = 2"
    by code_simp
  from C4_exit_code_reflects_failures[of "Some ''implement''" ?w all_pass] v g
  show ?thesis by simp
qed

text \<open>
  Claim C4 as stated fails: the gate records 2 for an undocumented HIGH finding, then
  the lint stage fails with status 1 and the run exits with 1.
\<close>

theorem C4_masking_counterexample:
  "fst (validate_plugin_artifacts ''implement''
          [implement_scan \<mapsto> ''Severity: HIGH'', ''package.json'' \<mapsto> ''{}'']) = 2
   \<and> EXIT_CODE (lint_phase (Some ''implement'')
          [implement_scan \<mapsto> ''Severity: HIGH'', ''package.json'' \<mapsto> ''{}'']
          (\<lambda>c. if c = PnpmLint \<or> c = NpmLint then 1 else 0)) = 1"
  by code_simp

subsection \<open>C5: exit code 3\<close>

text \<open>
  Claim C5. The gate has no validity check of the mitigation or waiver document, and
  none of its paths returns 3: the artifact gate returns 0, 1 or 2, and a run can exit
  with 3 only when a validator stage itself ends with status 3. On a plan report with a
  HIGH finding, a DECISIONS.md that holds the bare words Security Finding Waiver (no
  decision record around them) is accepted and the run exits with 0; a DECISIONS.md
  without those words gives 2. Neither gives 3.
\<close>

theorem C5_invalid_waiver_accepted:
  "EXIT_CODE (lint_phase (Some ''plan'')
      [plan_scan \<mapsto> ''Severity: HIGH'', decisions_md \<mapsto> ''Security Finding Waiver'']
      all_pass) = 0
   \<and> EXIT_CODE (lint_phase (Some ''plan'')
      [plan_scan \<mapsto> ''Severity: HIGH'', decisions_md \<mapsto> ''TODO'']
      all_pass) = 2"
  by code_simp

subsection \<open>C6: phase names the scripts do not know\<close>

text \<open>
  Claim C6, as the scripts have it. For every non-empty phase name outside spec, plan,
  tasks, implement and analyze (review and deploy among them), the plugin runtime
  writes Unknown phase and ends with status 1; the phase check discards that status,
  the hook (either version) skips all its checks, and the phase check ends with exit
  code 0 after printing that the phase is OK. Only an empty or missing phase argument
  is refused, with the usage line and exit code 2.
\<close>

theorem C6_unknown_phase_reported_but_accepted:
  assumes "PHASE \<noteq> []" and "\<not> gated_phase PHASE"
    and "hook = lint_phase \<or> hook = lint_phase_plain"
  shows "status (plugins_runtime e pr (Some PHASE) w) = 1
         \<and> err (plugins_runtime e pr (Some PHASE) w) = [''Unknown phase: '' @ PHASE]
         \<and> ci_status (run_phase_checks hook e pr (Some PHASE) w t) = 0
         \<and> ci_err (run_phase_checks hook e pr (Some PHASE) w t) = [''Unknown phase: '' @ PHASE]
         \<and> ci_out (run_phase_checks hook e pr (Some PHASE) w t)
             = [''[ci] Phase '' @ PHASE @ '' OK'']
         \<and> ci_status (run_phase_checks hook e pr (Some []) w t) = 2
         \<and> ci_status (run_phase_checks hook e pr None w t) = 2"
proof -
  have h: "EXIT_CODE (hook (Some PHASE) w t) = 0"
    using assms(3) hook_passes_unknown[OF assms(1,2), of w t] by auto
  show ?thesis
    using assms(1) h
    by (simp add: run_phase_checks_def Let_def plugins_runtime_unknown[OF assms(2)]
        unknown_phase_def)
qed

theorem C6_witness:
  "err (plugins_runtime bare_env idle_producers (Some ''review'') Map.empty)
     = [''Unknown phase: review'']
   \<and> ci_status (run_phase_checks lint_phase bare_env idle_producers (Some ''review'')
        Map.empty all_pass) = 0
   \<and> ci_out (run_phase_checks lint_phase bare_env idle_producers (Some ''review'')
        Map.empty all_pass) = [''[ci] Phase review OK'']"
proof -
  have 1: "''review'' \<noteq> []" by simp
  have 2: "\<not> gated_phase ''review''" by code_simp
  have 3: "lint_phase = lint_phase \<or> lint_phase = lint_phase_plain" by simp
  from C6_unknown_phase_reported_but_accepted[OF 1 2 3, of bare_env idle_producers Map.empty all_pass]
  show ?thesis by simp
qed

text \<open>
  Claim C6 as stated fails: the phase name release is outside the enumeration, and the
  phase check ends with exit code 0.
\<close>

theorem C6_unknown_phase_counterexample:
  "ci_status (run_phase_checks lint_phase bare_env idle_producers (Some ''release'')
      Map.empty all_pass) = 0
   \<and> ci_out (run_phase_checks lint_phase bare_env idle_producers (Some ''release'')
      Map.empty all_pass) = [''[ci] Phase release OK'']"
  by code_simp

subsection \<open>C7: the severity scan\<close>

text \<open>
  Claim C7, as the script has it (in the C locale). The scan finds a blocking marker
  exactly when some line of the report, with case ignored, has the word severity and,
  later on the same line with no NUL byte in between, critical or high. The keyword
  alone, without severity before it on its line, is no finding.
\<close>

theorem C7_severity_scan_needs_severity_word:
  "grep_qi_severity txt \<longleftrightarrow>
     (\<exists>l \<in> set (lines_of txt). \<exists>a b c.
        (lower l = a @ ''severity'' @ b @ ''critical'' @ c
         \<or> lower l = a @ ''severity'' @ b @ ''high'' @ c)
        \<and> list_all dot_matches b)"
  unfolding grep_qi_severity_def list_ex_iff severity_line_iff by blast

text \<open>
  A marker on one line is found; the two words on two lines, or with a NUL byte between
  them, are not; a NUL byte elsewhere on the line does not matter.
\<close>

theorem C7_severity_scan_witness:
  "grep_qi_severity ''Severity: High''
   \<and> \<not> grep_qi_severity ''Severity:\<newline>HIGH''
   \<and> \<not> grep_qi_severity (''severity'' @ [CHR 0x00] @ ''high'')
   \<and> grep_qi_severity (''severity high'' @ [CHR 0x00])"
proof -
  have l: "lines_of ''Severity: High'' = [''Severity: High'']"
    by code_simp
  have lo: "lower ''Severity: High'' = [] @ ''severity'' @ '': '' @ ''high'' @ []"
    by code_simp
  have d: "list_all dot_matches '': ''"
    by code_simp
  have 1: "grep_qi_severity ''Severity: High''"
    unfolding C7_severity_scan_needs_severity_word[of "''Severity: High''"] l
    using lo d by (metis list.set_intros(1))
  have 2: "\<not> grep_qi_severity ''Severity:\<newline>HIGH''"
    by code_simp
  have 3: "\<not> grep_qi_severity (''severity'' @ [CHR 0x00] @ ''high'')"
    by code_simp
  have 4: "grep_qi_severity (''severity high'' @ [CHR 0x00])"
    by code_simp
  from 1 2 3 4 show ?thesis by blast
qed

text \<open>
  Claim C7 as stated fails: a plan report whose only text is prose with the word
  CRITICAL is no finding, and the plan gate passes.
\<close>

theorem C7_bare_keyword_counterexample:
  "\<not> grep_qi_severity ''This change is CRITICAL for the release.''
   \<and> EXIT_CODE (lint_phase (Some ''plan'')
        [plan_scan \<mapsto> ''This change is CRITICAL for the release.''] all_pass) = 0"
  by code_simp

subsection \<open>C8: the validator chains\<close>

text \<open>
  In the implement phase every stage of a detected ecosystem's chain runs, whatever the
  stages before it returned: the Node chain starts lint, Prettier, type check and tests
  in that order (each with its npm fallback when the pnpm command fails), and the Rust
  chain then runs fmt, clippy and test. Both versions of the hook run the same commands.
\<close>

lemma ran_lint_phase_implement:
  "ran (lint_phase (Some ''implement'') w t) =
     (if is_file w ''package.json'' then
        stage_trace t PnpmLint NpmLint @ stage_trace t PnpmPrettier NpxPrettier
        @ stage_trace t PnpmTypecheck NpmTypecheck @ stage_trace t PnpmTest NpmTest
      else [])
     @ (if is_file w ''Cargo.toml'' then [CargoFmt, CargoClippy, CargoTest] else [])
   \<and> ran (lint_phase_plain (Some ''implement'') w t) = ran (lint_phase (Some ''implement'') w t)"
  by (simp add: lint_phase_def lint_phase_plain_def Let_def phase_arg_def ran_checks_implement)

text \<open>
  Claim C8: within one ecosystem's chain execution stops at the first step that exits
  non-zero, while the other ecosystem's chain still runs. The second half holds, the
  first does not: with Node and Rust workspaces present and the lint stage failing
  (pnpm and npm both with status 1), Prettier, the type check and the tests of the Node
  chain still run, and then the whole Rust chain.
\<close>

theorem C8_no_fail_fast:
  "ran (lint_phase (Some ''implement'')
        [implement_scan \<mapsto> ''clean'', ''package.json'' \<mapsto> ''{}'', ''Cargo.toml'' \<mapsto> '''']
        (\<lambda>c. if c = PnpmLint \<or> c = NpmLint then 1 else 0))
   = [PnpmLint, NpmLint, PnpmPrettier, PnpmTypecheck, PnpmTest,
      CargoFmt, CargoClippy, CargoTest]"
  by code_simp

subsection \<open>C9: the runtime and existing files\<close>



subsection \<open>C10: reports the severity check does not read\<close>

text \<open>
  Claim C10. The severity check of the tasks phase reads no report and returns 0. A run
  does not depend on what reports/tests/tasks-unit-help.md or
  reports/compliance/analyze-compliance.md contain, only on their existence. So with
  its required artifacts present the tasks phase exits with 0, and so does the analyze
  phase when its own security report has no blocking marker, whatever severity markers
  those two files hold (no validator stage runs in either phase).
\<close>

theorem C10_only_phase_security_report_is_scanned:
  "check_security_findings ''tasks'' w = (0, [])
   \<and> (is_file w tasks_unit_help \<longrightarrow>
        lint_phase arg (w(tasks_unit_help \<mapsto> x)) t = lint_phase arg w t)
   \<and> (is_file w analyze_compliance \<longrightarrow>
        lint_phase arg (w(analyze_compliance \<mapsto> y)) t = lint_phase arg w t)
   \<and> (missing_artifacts ''tasks'' w = [] \<longrightarrow> EXIT_CODE (lint_phase (Some ''tasks'') w t) = 0)
   \<and> (missing_artifacts ''analyze'' w = [] \<and> w analyze_deltas = Some d
        \<and> \<not> grep_qi_severity d \<longrightarrow>
        EXIT_CODE (lint_phase (Some ''analyze'') w t) = 0)"
proof -
  have 1: "check_security_findings ''tasks'' w = (0, [])"
    by (simp add: check_security_findings_def report_files_def)
  have 2: "is_file w tasks_unit_help \<longrightarrow>
        lint_phase arg (w(tasks_unit_help \<mapsto> x)) t = lint_phase arg w t"
    using lint_phase_upd[of w tasks_unit_help] tasks_unit_help_distinct by simp
  have 3: "is_file w analyze_compliance \<longrightarrow>
        lint_phase arg (w(analyze_compliance \<mapsto> y)) t = lint_phase arg w t"
    using lint_phase_upd[of w analyze_compliance] analyze_compliance_distinct by simp
  have pt: "phase_arg (Some ''tasks'') = ''tasks''" "gated_phase ''tasks''"
    and pa: "phase_arg (Some ''analyze'') = ''analyze''" "gated_phase ''analyze''"
    by (simp_all add: phase_arg_def gated_phase_def)
  have 4: "missing_artifacts ''tasks'' w = [] \<longrightarrow> EXIT_CODE (lint_phase (Some ''tasks'') w t) = 0"
    using exit_code_validators_pass[of "Some ''tasks''" w t]
      validators_pass_not_implement[of "''tasks''" w t] pt 1
    by (simp add: validate_code_present)
  have 5: "missing_artifacts ''analyze'' w = [] \<and> w analyze_deltas = Some d
        \<and> \<not> grep_qi_severity d \<longrightarrow>
        EXIT_CODE (lint_phase (Some ''analyze'') w t) = 0"
    using exit_code_validators_pass[of "Some ''analyze''" w t]
      validators_pass_not_implement[of "''analyze''" w t] pa
    by (simp add: validate_code_present check_security_findings_def report_files_def)
  from 1 2 3 4 5 show ?thesis by blast
qed

text \<open>Both phases with a CRITICAL marker in the report that is not scanned.\<close>

theorem C10_witness:
  "EXIT_CODE (lint_phase (Some ''tasks'')
      [''requirements.txt'' \<mapsto> ''pytest'', tasks_unit_help \<mapsto> ''Severity: CRITICAL'']
      all_pass) = 0
   \<and> EXIT_CODE (lint_phase (Some ''analyze'')
      [analyze_deltas \<mapsto> ''No findings.'', analyze_compliance \<mapsto> ''Severity: CRITICAL'']
      all_pass) = 0"
proof -
  let ?wt = "[''requirements.txt'' \<mapsto> ''pytest'', tasks_unit_help \<mapsto> ''Severity: CRITICAL'']"
  let ?wa = "[analyze_deltas \<mapsto> ''No findings.'', analyze_compliance \<mapsto> ''Severity: CRITICAL'']"
  have 1: "missing_artifacts ''tasks'' ?wt = []" by code_simp
  have 2: "missing_artifacts ''analyze'' ?wa = []" by code_simp
  have 3: "?wa analyze_deltas = Some ''No findings.''" by code_simp
  have 4: "\<not> grep_qi_severity ''No findings.''" by code_simp
  from C10_only_phase_security_report_is_scanned[of ?wt _ _ all_pass] 1
  have t: "EXIT_CODE (lint_phase (Some ''tasks'') ?wt all_pass) = 0" by blast
  from C10_only_phase_security_report_is_scanned[of ?wa _ _ all_pass _ "''No findings.''"] 2 3 4
  have a: "EXIT_CODE (lint_phase (Some ''analyze'') ?wa all_pass) = 0" by blast
  from t a show ?thesis by blast
qed

end
